theory Spec2Isabelle
  imports Complex_Main
begin

section \<open>Python values\<close>

text \<open>
  The analysis functions return dictionaries with values of several Python types. A dictionary
  is an association list in insertion order; a float is modelled by the real number it
  approximates (numpy's float64 arithmetic is taken as exact real arithmetic). A Python string
  is a \<open>string\<close>, each \<open>char\<close> standing for one character of the text.
\<close>

datatype pyval =
    PNone
  | PBool bool
  | PInt int
  | PFloat real
  | PStr string
  | PList "pyval list"
  | PDict "(string \<times> pyval) list"

type_synonym dict = "(string \<times> pyval) list"

text \<open>
  Every exception below is a subclass of Python's \<^verbatim>\<open>Exception\<close>. \<open>OSError\<close> stands for
  \<^verbatim>\<open>OSError\<close> and its subclasses (\<^verbatim>\<open>PermissionError\<close>, \<^verbatim>\<open>FileNotFoundError\<close>);
  \<open>OtherError\<close> for any further exception raised by a library.
\<close>

datatype exn =
    OSError string
  | IndexError string
  | KeyError string
  | TypeError string
  | ValueError string
  | OtherError string

fun exn_str :: "exn \<Rightarrow> string" where
  "exn_str (OSError m) = m"
| "exn_str (IndexError m) = m"
| "exn_str (KeyError m) = [CHR 0x27] @ m @ [CHR 0x27]"
| "exn_str (TypeError m) = m"
| "exn_str (ValueError m) = m"
| "exn_str (OtherError m) = m"




definition dget :: "dict \<Rightarrow> string \<Rightarrow> pyval \<Rightarrow> pyval" where
  "dget d k dflt = (case map_of d k of None \<Rightarrow> dflt | Some v \<Rightarrow> v)"







subsection \<open>Numbers as text\<close>





text \<open>
  \<^verbatim>\<open>round(x, n)\<close> and the format \<^verbatim>\<open>{x:.0f}\<close> round the exact value to the nearest
  multiple of \<open>10\<^sup>-\<^sup>n\<close>, a tie going to the even neighbour.
\<close>

definition round_half_even :: "real \<Rightarrow> int" where
  "round_half_even x =
     (let f = \<lfloor>x\<rfloor>; d = x - of_int f
      in if d < 1 / 2 then f else if 1 / 2 < d then f + 1 else if even f then f else f + 1)"

definition py_round :: "real \<Rightarrow> nat \<Rightarrow> real" where
  "py_round x nd = of_int (round_half_even (x * 10 ^ nd)) / 10 ^ nd"


text \<open>\<^verbatim>\<open>int(c)\<close> on a float truncates towards zero.\<close>

definition py_int :: "real \<Rightarrow> int" where
  "py_int x = (if 0 \<le> x then \<lfloor>x\<rfloor> else \<lceil>x\<rceil>)"


section \<open>Array statistics (numpy)\<close>

text \<open>
  \<^verbatim>\<open>mean\<close> and \<^verbatim>\<open>std\<close> of numpy (population standard deviation). On an empty array numpy
  gives \<^verbatim>\<open>nan\<close>; the model is meant for arrays with at least one entry.
\<close>

definition mean :: "real list \<Rightarrow> real" where
  "mean xs = sum_list xs / real (length xs)"

definition variance :: "real list \<Rightarrow> real" where
  "variance xs = mean (map (\<lambda>x. (x - mean xs)\<^sup>2) xs)"

definition std :: "real list \<Rightarrow> real" where
  "std xs = sqrt (variance xs)"

text \<open>\<^verbatim>\<open>np.argmax\<close> of a row: the index of the first occurrence of the maximum.\<close>

fun argmax_from :: "nat \<Rightarrow> nat \<Rightarrow> real \<Rightarrow> real list \<Rightarrow> nat" where
  "argmax_from i best bv [] = best"
| "argmax_from i best bv (x # xs) =
     (if bv < x then argmax_from (Suc i) i x xs else argmax_from (Suc i) best bv xs)"

definition argmax :: "real list \<Rightarrow> nat" where
  "argmax xs = (case xs of [] \<Rightarrow> 0 | x # rest \<Rightarrow> argmax_from 1 0 x rest)"

record ndarray =
  shape :: "nat list"
  cells :: "nat list list"

text \<open>
  An array of shape \<open>(h, w, c)\<close> holds, row by row, one list of \<open>c\<close> bytes per pixel; an
  array of shape \<open>(h, w)\<close> one list of a single byte per pixel. The column \<open>c\<close> of the pixel
  list is \<^verbatim>\<open>a[:, c]\<close>.
\<close>

definition channel :: "nat list list \<Rightarrow> nat \<Rightarrow> real list" where
  "channel ps c = map (\<lambda>p. real (p ! c)) ps"

definition all_values :: "nat list list \<Rightarrow> real list" where
  "all_values ps = map real (concat ps)"

text \<open>\<^verbatim>\<open>pixels[sample_indices]\<close>: an index out of range raises \<^verbatim>\<open>IndexError\<close>.\<close>

definition take_rows :: "nat list list \<Rightarrow> nat list \<Rightarrow> exn + nat list list" where
  "take_rows ps idxs =
     (if \<forall>i \<in> set idxs. i < length ps then Inr (map (\<lambda>i. ps ! i) idxs)
      else Inl (IndexError ''index out of bounds''))"

section \<open>Images (PIL)\<close>

record image =
  img_format :: "string option"
  img_mode :: string
  img_width :: nat
  img_height :: nat
  img_bands :: nat
  img_data :: "nat list list"

text \<open>
  A decoded image has \<open>width \<times> height\<close> pixels, each with one byte per band of its mode.
\<close>

definition wf_image :: "image \<Rightarrow> bool" where
  "wf_image img \<longleftrightarrow>
     0 < img_width img \<and> 0 < img_height img
     \<and> length (img_data img) = img_width img * img_height img
     \<and> list_all (\<lambda>p. length p = img_bands img) (img_data img)
     \<and> (img_mode img = ''RGB'' \<longrightarrow> img_bands img = 3)
     \<and> (img_mode img = ''L'' \<longrightarrow> img_bands img = 1)
     \<and> (img_mode img = ''RGBA'' \<longrightarrow> img_bands img = 4)"

text \<open>
  \<^verbatim>\<open>np.array(img)\<close>: shape \<open>(height, width)\<close> for a single-band image and
  \<open>(height, width, bands)\<close> otherwise.
\<close>

definition np_array :: "image \<Rightarrow> ndarray" where
  "np_array img =
     \<lparr>shape = (if img_bands img = 1 then [img_height img, img_width img]
               else [img_height img, img_width img, img_bands img]),
      cells = img_data img\<rparr>"

section \<open>The environment and the module state\<close>

datatype handle = Handle string

record env =
  open_image :: "string \<Rightarrow> exn + image"
  convert_other :: "image \<Rightarrow> exn + image"
  random_choice :: "nat \<Rightarrow> nat \<Rightarrow> nat list"
  stat_size :: "string \<Rightarrow> exn + nat"

text \<open>
  The mutable state of the process: the configured Tesseract command of \<^verbatim>\<open>pytesseract\<close>, the
  three globals of the captioning model, and the records written to the logger
  (level and message, oldest first).
\<close>

record world =
  tesseract_cmd :: string
  vision_processor :: "handle option"
  vision_model :: "handle option"
  vision_model_loaded :: bool
  logged :: "(string \<times> string) list"

definition log_to :: "string \<Rightarrow> string \<Rightarrow> world \<Rightarrow> world" where
  "log_to level msg w = w\<lparr>logged := logged w @ [(level, msg)]\<rparr>"

section \<open>Basic statistics (image\_analyzer.py)\<close>

text \<open>
  \<^verbatim>\<open>img.convert("RGB")\<close>: a grayscale pixel \<open>v\<close> becomes \<open>(v, v, v)\<close>, an RGBA pixel loses its
  alpha band; the conversion from any other mode is left to the environment.
\<close>

definition convert_RGB :: "env \<Rightarrow> image \<Rightarrow> exn + image" where
  "convert_RGB env img =
     (if img_mode img = ''L'' then
        Inr (img\<lparr>img_mode := ''RGB'', img_bands := 3,
                 img_data := map (\<lambda>p. [p ! 0, p ! 0, p ! 0]) (img_data img)\<rparr>)
      else if img_mode img = ''RGBA'' then
        Inr (img\<lparr>img_mode := ''RGB'', img_bands := 3,
                 img_data := map (take 3) (img_data img)\<rparr>)
      else convert_other env img)"

text \<open>The local variables of \<^verbatim>\<open>analyze_image_basic\<close> that the colour analysis assigns.\<close>

record locals =
  avg_color :: "real list option"
  dominant_color_type :: string
  is_likely_text :: bool
  is_colorful :: bool
  brightness :: "real option"
  is_bright :: bool
  is_dark :: bool
  dominant_hue :: string

definition initial_locals :: locals where
  "initial_locals =
     \<lparr>avg_color = None, dominant_color_type = ''unknown'', is_likely_text = False,
      is_colorful = False, brightness = None, is_bright = False, is_dark = False,
      dominant_hue = ''unknown''\<rparr>"

text \<open>
  The hue estimate of the three-channel branch: \<^verbatim>\<open>max_channel\<close> holds for every sampled
  pixel the index of its largest channel, \<^verbatim>\<open>dominant c\<close> is \<^verbatim>\<open>np.sum(max_channel == c) /
  len(max_channel)\<close>.
\<close>

definition max_channel :: "nat list list \<Rightarrow> nat list" where
  "max_channel sample_pixels = map (\<lambda>p. argmax (map (\<lambda>v. real v / 255) p)) sample_pixels"

definition dominant :: "nat list \<Rightarrow> nat \<Rightarrow> real" where
  "dominant mc c = real (length (filter (\<lambda>m. m = c) mc)) / real (length mc)"

definition hue_of_sample :: "nat list list \<Rightarrow> string" where
  "hue_of_sample sample_pixels =
     (let mc = max_channel sample_pixels;
          red_dominant = dominant mc 0;
          green_dominant = dominant mc 1;
          blue_dominant = dominant mc 2
      in if red_dominant > 0.4 then ''red''
         else if green_dominant > 0.4 then ''green''
         else if blue_dominant > 0.4 then ''blue'' else ''mixed'')"

text \<open>The branch \<^verbatim>\<open>if len(img_array.shape) == 3\<close>; an exception leaves the assignments made so far.\<close>

definition color_stats_3d :: "env \<Rightarrow> ndarray \<Rightarrow> locals \<Rightarrow> exn option \<times> locals" where
  "color_stats_3d env img_array l0 =
     (let nch = shape img_array ! 2;
          l1 = l0\<lparr>avg_color := Some (map (\<lambda>c. mean (channel (cells img_array) c)) [0..<nch])\<rparr>;
          pixels = cells img_array;
          sample_size = min 10000 (length pixels);
          sample_indices = random_choice env (length pixels) sample_size
      in case take_rows pixels sample_indices of
           Inl e \<Rightarrow> (Some e, l1)
         | Inr sample_pixels \<Rightarrow>
             (let color_variance = mean (map (\<lambda>c. std (channel sample_pixels c)) [0..<nch]);
                  b = mean (all_values sample_pixels);
                  l2 = l1\<lparr>is_colorful := color_variance > 30, brightness := Some b,
                          is_bright := b > 180, is_dark := b < 75\<rparr>
              in if nch = 3 then
                   (None, l2\<lparr>dominant_color_type := ''color'',
                              dominant_hue := hue_of_sample sample_pixels\<rparr>)
                 else if nch = 4 then
                   (None, l2\<lparr>dominant_color_type := ''color_with_alpha'', dominant_hue := ''mixed''\<rparr>)
                 else
                   (None, l2\<lparr>dominant_color_type := ''unknown'', dominant_hue := ''unknown''\<rparr>)))"

text \<open>The branch \<^verbatim>\<open>else:  # Grayscale\<close>.\<close>

definition color_stats_2d :: "ndarray \<Rightarrow> locals \<Rightarrow> locals" where
  "color_stats_2d img_array l0 =
     (let m = mean (all_values (cells img_array))
      in l0\<lparr>avg_color := Some [m], dominant_color_type := ''grayscale'', is_colorful := False,
            brightness := Some m, is_bright := m > 180, is_dark := m < 75,
            dominant_hue := ''grayscale''\<rparr>)"

text \<open>
  The text estimate. \<^verbatim>\<open>np.dot(img_array[..., :3], [0.2989, 0.5870, 0.1140])\<close> needs three
  channels and raises \<^verbatim>\<open>ValueError\<close> on fewer.
\<close>

definition luminance :: "nat list \<Rightarrow> real" where
  "luminance p = real (p ! 0) * 0.2989 + real (p ! 1) * 0.5870 + real (p ! 2) * 0.1140"

definition text_estimate :: "ndarray \<Rightarrow> locals \<Rightarrow> exn option \<times> locals" where
  "text_estimate img_array l =
     (if length (shape img_array) = 2 \<or> (length (shape img_array) = 3 \<and> shape img_array ! 2 = 1)
      then
        (let contrast = std (all_values (cells img_array))
         in (None, l\<lparr>is_likely_text := (contrast > 50 \<and> mean (all_values (cells img_array)) < 128)\<rparr>))
      else if shape img_array ! 2 < 3 then
        (Some (ValueError ''shapes not aligned''), l)
      else
        (let gray = map luminance (cells img_array);
             contrast = std gray
         in (None, l\<lparr>is_likely_text := (contrast > 50 \<and> mean gray < 128)\<rparr>)))"

text \<open>The body of the inner \<^verbatim>\<open>try\<close>: the exception raised, if any, and the locals at that moment.\<close>

definition to_rgb :: "env \<Rightarrow> image \<Rightarrow> exn + image" where
  "to_rgb env img = (if img_mode img \<noteq> ''RGB'' then convert_RGB env img else Inr img)"

definition analyze_colors :: "env \<Rightarrow> image \<Rightarrow> locals \<Rightarrow> exn option \<times> locals" where
  "analyze_colors env img l0 =
     (case to_rgb env img of
        Inl e \<Rightarrow> (Some e, l0)
      | Inr img_rgb \<Rightarrow>
          (let img_array = np_array img_rgb
           in case (if length (shape img_array) = 3 then color_stats_3d env img_array l0
                    else (None, color_stats_2d img_array l0)) of
                (Some e, l1) \<Rightarrow> (Some e, l1)
              | (None, l1) \<Rightarrow> text_estimate img_array l1))"

definition basic_result :: "image \<Rightarrow> nat \<Rightarrow> locals \<Rightarrow> dict" where
  "basic_result img file_size l =
     [(''dimensions'', PDict [(''width'', PInt (int (img_width img))),
                              (''height'', PInt (int (img_height img)))]),
      (''format'', PStr (case img_format img of None \<Rightarrow> ''unknown''
                         | Some f \<Rightarrow> if f = [] then ''unknown'' else f)),
      (''color_mode'', PStr (img_mode img)),
      (''file_size_bytes'', PInt (int file_size)),
      (''file_size_kb'', PFloat (py_round (real file_size / 1024) 2)),
      (''aspect_ratio'', if img_height img > 0
                         then PFloat (py_round (real (img_width img) / real (img_height img)) 2)
                         else PInt 0),
      (''is_likely_text'', PBool (is_likely_text l)),
      (''dominant_color_type'', PStr (dominant_color_type l)),
      (''average_color_rgb'', case avg_color l of
                                None \<Rightarrow> PNone
                              | Some cs \<Rightarrow> if cs = [] then PNone
                                           else PList (map (\<lambda>c. PInt (py_int c)) cs)),
      (''is_colorful'', PBool (is_colorful l)),
      (''brightness'', case brightness l of None \<Rightarrow> PNone | Some b \<Rightarrow> PFloat (py_round b 1)),
      (''is_bright'', PBool (is_bright l)),
      (''is_dark'', PBool (is_dark l)),
      (''dominant_hue'', PStr (dominant_hue l))]"

definition analyze_image_basic :: "env \<Rightarrow> string \<Rightarrow> world \<Rightarrow> dict \<times> world" where
  "analyze_image_basic env image_path w =
     (case open_image env image_path of
        Inl e \<Rightarrow>
          ([(''error'', PStr (exn_str e))],
           log_to ''error'' (''Error analyzing image basic info: '' @ exn_str e) w)
      | Inr img \<Rightarrow>
          (let (failure, l) = analyze_colors env img initial_locals;
               w1 = (case failure of
                       None \<Rightarrow> w
                     | Some e \<Rightarrow> log_to ''warning'' (''Error analyzing image colors: '' @ exn_str e) w)
           in case stat_size env image_path of
                Inl e \<Rightarrow>
                  ([(''error'', PStr (exn_str e))],
                   log_to ''error'' (''Error analyzing image basic info: '' @ exn_str e) w1)
              | Inr file_size \<Rightarrow> (basic_result img file_size l, w1)))"

section \<open>Sampling and winning channels\<close>

text \<open>
  What \<^verbatim>\<open>np.random.choice(n, k, replace=False)\<close> promises for \<open>k \<le> n\<close>: \<open>k\<close> distinct
  indices below \<open>n\<close>. The sampled pixels of an image are the pixels at the indices drawn.
\<close>

definition valid_sampling :: "env \<Rightarrow> bool" where
  "valid_sampling env \<longleftrightarrow>
     (\<forall>n k. k \<le> n \<longrightarrow>
        length (random_choice env n k) = k \<and> distinct (random_choice env n k)
        \<and> (\<forall>i \<in> set (random_choice env n k). i < n))"

definition sampled_pixels :: "env \<Rightarrow> image \<Rightarrow> nat list list" where
  "sampled_pixels env img =
     map (\<lambda>i. img_data img ! i)
       (random_choice env (length (img_data img)) (min 10000 (length (img_data img))))"

text \<open>
  The specification's account of the hue estimate, independent of \<open>argmax\<close>: channel \<open>c\<close>
  of an RGB pixel wins when no channel is larger and every earlier channel is smaller;
  \<open>win_fraction c\<close> is the share of pixels that channel \<open>c\<close> wins.
\<close>

definition wins :: "nat \<Rightarrow> nat list \<Rightarrow> bool" where
  "wins c p \<longleftrightarrow>
     list_all (\<lambda>j. p ! j \<le> p ! c) [0..<3] \<and> list_all (\<lambda>j. p ! j < p ! c) [0..<c]"

definition win_fraction :: "nat \<Rightarrow> nat list list \<Rightarrow> real" where
  "win_fraction c ps = real (length (filter (wins c) ps)) / real (length ps)"

section \<open>The captioning model (image\_analyzer.py)\<close>

text \<open>
  What the process finds when it imports and loads the model: whether the imports
  succeeded (\<^verbatim>\<open>VISION_MODEL_AVAILABLE\<close>), what the two \<^verbatim>\<open>from_pretrained\<close> calls and the
  move to the device give, and what caption the loaded model generates for an image.
\<close>

record vision_env =
  VISION_MODEL_AVAILABLE :: bool
  processor_from_pretrained :: "string \<Rightarrow> exn + handle"
  model_from_pretrained :: "string \<Rightarrow> exn + handle"
  cuda_is_available :: bool
  model_to_device :: "handle \<Rightarrow> string \<Rightarrow> exn + unit"
  generate_caption :: "handle \<Rightarrow> handle \<Rightarrow> image \<Rightarrow> exn + string"

definition load_failed :: "exn \<Rightarrow> world \<Rightarrow> bool \<times> world" where
  "load_failed e w = (False, log_to ''error'' (''Failed to load vision model: '' @ exn_str e) w)"

definition load_vision_model :: "vision_env \<Rightarrow> string \<Rightarrow> world \<Rightarrow> bool \<times> world" where
  "load_vision_model venv model_name w =
     (if \<not> VISION_MODEL_AVAILABLE venv then
        (False, log_to ''warning'' ''Vision model dependencies not available'' w)
      else if vision_model_loaded w then (True, w)
      else
        (let w1 = log_to ''info'' (''Loading vision model: '' @ model_name) w
         in case processor_from_pretrained venv model_name of
              Inl e \<Rightarrow> load_failed e w1
            | Inr p \<Rightarrow>
                (let w2 = w1\<lparr>vision_processor := Some p\<rparr>
                 in case model_from_pretrained venv model_name of
                      Inl e \<Rightarrow> load_failed e w2
                    | Inr m \<Rightarrow>
                        (let w3 = w2\<lparr>vision_model := Some m\<rparr>;
                             device = (if cuda_is_available venv then ''cuda'' else ''cpu'')
                         in case model_to_device venv m device of
                              Inl e \<Rightarrow> load_failed e w3
                            | Inr _ \<Rightarrow>
                                (True,
                                 log_to ''info'' (''Vision model loaded successfully on '' @ device)
                                   (w3\<lparr>vision_model_loaded := True\<rparr>))))))"





text \<open>
  The load attempts a process has made so far: every attempt starts by logging
  \<^verbatim>\<open>Loading vision model: ...\<close>, and nothing else logs a message starting so. A process makes
  its calls of \<^verbatim>\<open>load_vision_model\<close> one after the other, each finding the environment of
  its moment.
\<close>

definition load_attempts :: "world \<Rightarrow> nat" where
  "load_attempts w =
     length (filter (\<lambda>(level, msg). level = ''info'' \<and> take 22 msg = ''Loading vision model: '')
               (logged w))"

fun load_calls :: "(vision_env \<times> string) list \<Rightarrow> world \<Rightarrow> world" where
  "load_calls [] w = w"
| "load_calls ((venv, model_name) # calls) w =
     load_calls calls (snd (load_vision_model venv model_name w))"

text \<open>An environment with the dependencies installed whose download of the processor fails.\<close>

definition offline_vision :: vision_env where
  "offline_vision =
     \<lparr>VISION_MODEL_AVAILABLE = True,
      processor_from_pretrained = (\<lambda>_. Inl (OSError ''Connection error'')),
      model_from_pretrained = (\<lambda>_. Inl (OSError ''Connection error'')),
      cuda_is_available = False,
      model_to_device = (\<lambda>_ _. Inr ()),
      generate_caption = (\<lambda>_ _ _. Inl (OtherError ''not loaded''))\<rparr>"

text \<open>An environment in which the model loads and captions every image the same way.\<close>

definition working_vision :: vision_env where
  "working_vision =
     \<lparr>VISION_MODEL_AVAILABLE = True,
      processor_from_pretrained = (\<lambda>n. Inr (Handle n)),
      model_from_pretrained = (\<lambda>n. Inr (Handle n)),
      cuda_is_available = False,
      model_to_device = (\<lambda>_ _. Inr ()),
      generate_caption = (\<lambda>_ _ _. Inr ''a picture'')\<rparr>"

section \<open>OCR (image\_analyzer.py)\<close>

subsection \<open>String operations\<close>









subsection \<open>Finding Tesseract\<close>







subsection \<open>Recognition\<close>










section \<open>Hybrid analysis (image\_analyzer.py)\<close>

subsection \<open>The clauses of the description\<close>











subsection \<open>The whole analysis\<close>



subsection \<open>The clauses, as the specification lists them\<close>







section \<open>Concrete inputs\<close>

text \<open>
  Small decoded images and an environment in which one file exists, for evaluating the
  functions. The sampling of this environment returns the indices in order, one of the
  outcomes of a draw without replacement.
\<close>

definition gray_image :: "nat \<Rightarrow> nat \<Rightarrow> nat list \<Rightarrow> image" where
  "gray_image wd ht vs =
     \<lparr>img_format = Some ''PNG'', img_mode = ''L'', img_width = wd, img_height = ht,
      img_bands = 1, img_data = map (\<lambda>v. [v]) vs\<rparr>"

definition rgb_image :: "nat \<Rightarrow> nat \<Rightarrow> nat list list \<Rightarrow> image" where
  "rgb_image wd ht ps =
     \<lparr>img_format = Some ''PNG'', img_mode = ''RGB'', img_width = wd, img_height = ht,
      img_bands = 3, img_data = ps\<rparr>"

definition one_file_env :: "string \<Rightarrow> image \<Rightarrow> env" where
  "one_file_env path img =
     \<lparr>open_image = (\<lambda>p. if p = path then Inr img else Inl (OSError ''No such file or directory'')),
      convert_other = (\<lambda>_. Inl (ValueError ''conversion not supported'')),
      random_choice = (\<lambda>n k. [0..<k]),
      stat_size = (\<lambda>p. if p = path then Inr 2048 else Inl (OSError ''No such file or directory''))\<rparr>"

definition world0 :: world where
  "world0 = \<lparr>tesseract_cmd = ''tesseract'', vision_processor = None, vision_model = None,
             vision_model_loaded = False, logged = []\<rparr>"



section \<open>Page ranges (server.py)\<close>

text \<open>
  \<^verbatim>\<open>get_page_range(doc, page_range)\<close> reads \<^verbatim>\<open>len(doc)\<close> and the optional dictionary
  \<^verbatim>\<open>page_range\<close>. The document enters the model only through its page count; the
  dictionary is a map from keys to Python integers (unbounded, hence \<open>int\<close>).
\<close>

definition get_page_range :: "int \<Rightarrow> (string \<rightharpoonup> int) option \<Rightarrow> int \<times> int" where
  "get_page_range total_pages page_range =
     (case page_range of
        None \<Rightarrow> (0, total_pages - 1)
      | Some d \<Rightarrow>
          (let start0 = (case d ''start'' of None \<Rightarrow> 1 | Some v \<Rightarrow> v) - 1;
               end0 = (case d ''end'' of None \<Rightarrow> total_pages | Some v \<Rightarrow> v) - 1;
               start1 = max 0 (min start0 (total_pages - 1));
               end1 = max start1 (min end0 (total_pages - 1))
           in (start1, end1)))"

section \<open>Properties\<close>

subsection \<open>Statistics and sampling\<close>

lemma std_gt_iff: "0 \<le> c \<Longrightarrow> c < std xs \<longleftrightarrow> c\<^sup>2 < variance xs"
  unfolding std_def
  by (metis abs_of_nonneg real_sqrt_abs real_sqrt_less_iff)

lemma mean_replicate: "0 < n \<Longrightarrow> mean (replicate n c) = c"
  by (simp add: mean_def sum_list_replicate)

lemma const_list: "(\<forall>x \<in> set xs. x = c) \<Longrightarrow> xs = replicate (length xs) c"
  by (induction xs) auto

lemma mean_const: "xs \<noteq> [] \<Longrightarrow> \<forall>x \<in> set xs. x = c \<Longrightarrow> mean xs = c"
  using const_list [of xs c] mean_replicate [of "length xs" c] by simp

lemma variance_const: "xs \<noteq> [] \<Longrightarrow> \<forall>x \<in> set xs. x = c \<Longrightarrow> variance xs = 0"
  unfolding variance_def
  by (subst mean_const [where c = 0]) (auto simp: mean_const)

lemma std_const: "xs \<noteq> [] \<Longrightarrow> \<forall>x \<in> set xs. x = c \<Longrightarrow> std xs = 0"
  by (simp add: std_def variance_const)

lemma round_half_even_near: "\<bar>of_int (round_half_even x) - x\<bar> \<le> 1 / 2"
  unfolding round_half_even_def Let_def
  by (auto simp: abs_le_iff)

lemma py_round_near: "\<bar>py_round x 1 - x\<bar> \<le> 1 / 20"
proof -
  have "\<bar>of_int (round_half_even (x * 10)) - x * 10\<bar> \<le> 1 / 2"
    by (rule round_half_even_near)
  then show ?thesis
    unfolding py_round_def by (simp add: field_simps abs_le_iff)
qed

lemma upt3: "[0..<3] = [0, 1, 2]"
  by (simp add: upt_rec)

text \<open>The colour analysis of an image whose RGB view is well formed.\<close>

lemma np_array_rgb:
  "wf_image rgb \<Longrightarrow> img_mode rgb = ''RGB'' \<Longrightarrow>
   np_array rgb = \<lparr>shape = [img_height rgb, img_width rgb, 3], cells = img_data rgb\<rparr>"
  by (simp add: np_array_def wf_image_def)

lemma analyze_colors_rgb:
  assumes rgb: "to_rgb env img = Inr rgb" and wf: "wf_image rgb" and mode: "img_mode rgb = ''RGB''"
    and smp: "take_rows (img_data rgb)
                (random_choice env (length (img_data rgb)) (min 10000 (length (img_data rgb))))
              = Inr sample"
  shows "analyze_colors env img initial_locals =
     (None,
      \<lparr>avg_color = Some (map (\<lambda>c. mean (channel (img_data rgb) c)) [0, 1, 2]),
       dominant_color_type = ''color'',
       is_likely_text = (50 < std (map luminance (img_data rgb))
                         \<and> mean (map luminance (img_data rgb)) < 128),
       is_colorful = (30 < mean (map (\<lambda>c. std (channel sample c)) [0, 1, 2])),
       brightness = Some (mean (all_values sample)),
       is_bright = (180 < mean (all_values sample)),
       is_dark = (mean (all_values sample) < 75),
       dominant_hue = hue_of_sample sample\<rparr>)"
  by (simp add: analyze_colors_def rgb np_array_rgb [OF wf mode] color_stats_3d_def smp
      text_estimate_def initial_locals_def upt3 Let_def)

lemma valid_sampling_bound:
  "valid_sampling env \<Longrightarrow> k \<le> n \<Longrightarrow> i \<in> set (random_choice env n k) \<Longrightarrow> i < n"
  unfolding valid_sampling_def by blast

lemma valid_sampling_length:
  "valid_sampling env \<Longrightarrow> k \<le> n \<Longrightarrow> length (random_choice env n k) = k"
  unfolding valid_sampling_def by blast

lemma take_rows_valid:
  assumes "valid_sampling env"
  shows "take_rows (img_data img)
           (random_choice env (length (img_data img)) (min 10000 (length (img_data img))))
         = Inr (sampled_pixels env img)"
  unfolding take_rows_def sampled_pixels_def
  using valid_sampling_bound [OF assms, of "min 10000 (length (img_data img))" "length (img_data img)"]
  by auto

lemma sampled_pixels_length:
  "valid_sampling env \<Longrightarrow> length (sampled_pixels env img) = min 10000 (length (img_data img))"
  unfolding sampled_pixels_def by (simp add: valid_sampling_length)

lemma sampled_pixels_subset:
  assumes "valid_sampling env"
  shows "set (sampled_pixels env img) \<subseteq> set (img_data img)"
  unfolding sampled_pixels_def
  using valid_sampling_bound [OF assms, of "min 10000 (length (img_data img))" "length (img_data img)"]
  by auto

lemma analyze_image_basic_ok:
  assumes "open_image env path = Inr img" and "stat_size env path = Inr sz"
  shows "fst (analyze_image_basic env path w)
         = basic_result img sz (snd (analyze_colors env img initial_locals))"
  using assms by (simp add: analyze_image_basic_def Let_def split: prod.splits)

lemma basic_result_lookup:
  "dget (basic_result img sz l) ''dominant_hue'' d = PStr (dominant_hue l)"
  "dget (basic_result img sz l) ''is_colorful'' d = PBool (is_colorful l)"
  "dget (basic_result img sz l) ''is_likely_text'' d = PBool (is_likely_text l)"
  "dget (basic_result img sz l) ''dominant_color_type'' d = PStr (dominant_color_type l)"
  "dget (basic_result img sz l) ''color_mode'' d = PStr (img_mode img)"
  "dget (basic_result img sz l) ''brightness'' d
     = (case brightness l of None \<Rightarrow> PNone | Some b \<Rightarrow> PFloat (py_round b 1))"
  "dget (basic_result img sz l) ''dimensions'' d
     = PDict [(''width'', PInt (int (img_width img))), (''height'', PInt (int (img_height img)))]"
  by (simp_all add: basic_result_def dget_def)


lemma to_rgb_RGB: "img_mode img = ''RGB'' \<Longrightarrow> to_rgb env img = Inr img"
  by (simp add: to_rgb_def)

lemma to_rgb_gray:
  "to_rgb env (gray_image wd ht vs) = Inr (rgb_image wd ht (map (\<lambda>v. [v, v, v]) vs))"
  by (simp add: to_rgb_def convert_RGB_def gray_image_def rgb_image_def comp_def)

lemma wf_rgb_image:
  "0 < wd \<Longrightarrow> 0 < ht \<Longrightarrow> length ps = wd * ht \<Longrightarrow> list_all (\<lambda>p. length p = 3) ps
   \<Longrightarrow> wf_image (rgb_image wd ht ps)"
  by (simp add: wf_image_def rgb_image_def)

lemma one_file_env_sel:
  "open_image (one_file_env path img) path = Inr img"
  "stat_size (one_file_env path img) path = Inr 2048"
  "random_choice (one_file_env path img) n k = [0..<k]"
  by (simp_all add: one_file_env_def)

lemma valid_sampling_one_file: "valid_sampling (one_file_env path img)"
  by (auto simp: valid_sampling_def one_file_env_def)

lemma sampled_pixels_one_file:
  "length (img_data img) \<le> 10000 \<Longrightarrow> sampled_pixels (one_file_env path img') img = img_data img"
  by (simp add: sampled_pixels_def one_file_env_sel map_nth)

lemma img_data_rgb_image: "img_data (rgb_image wd ht ps) = ps" "img_mode (rgb_image wd ht ps) = ''RGB''"
  "img_width (rgb_image wd ht ps) = wd" "img_height (rgb_image wd ht ps) = ht"
  by (simp_all add: rgb_image_def)

lemma gray_image_sel: "img_data (gray_image wd ht vs) = map (\<lambda>v. [v]) vs"
  "img_mode (gray_image wd ht vs) = ''L''"
  "img_width (gray_image wd ht vs) = wd" "img_height (gray_image wd ht vs) = ht"
  by (simp_all add: gray_image_def)

text \<open>The colour analysis in terms of the RGB view and the sampled pixels.\<close>

lemma analyze_colors_sampled:
  assumes "to_rgb env img = Inr rgb" "wf_image rgb" "img_mode rgb = ''RGB''" "valid_sampling env"
  shows "analyze_colors env img initial_locals =
     (None,
      \<lparr>avg_color = Some (map (\<lambda>c. mean (channel (img_data rgb) c)) [0, 1, 2]),
       dominant_color_type = ''color'',
       is_likely_text = (50 < std (map luminance (img_data rgb))
                         \<and> mean (map luminance (img_data rgb)) < 128),
       is_colorful = (30 < mean (map (\<lambda>c. std (channel (sampled_pixels env rgb) c)) [0, 1, 2])),
       brightness = Some (mean (all_values (sampled_pixels env rgb))),
       is_bright = (180 < mean (all_values (sampled_pixels env rgb))),
       is_dark = (mean (all_values (sampled_pixels env rgb)) < 75),
       dominant_hue = hue_of_sample (sampled_pixels env rgb)\<rparr>)"
  by (rule analyze_colors_rgb [OF assms(1-3) take_rows_valid [OF assms(4)]])


subsection \<open>Uniform samples\<close>

lemma channel_uniform:
  "\<forall>p \<in> set ps. p = q \<Longrightarrow> \<forall>x \<in> set (channel ps c). x = real (q ! c)"
  by (auto simp: channel_def)

lemma std_channel_uniform:
  "ps \<noteq> [] \<Longrightarrow> \<forall>p \<in> set ps. p = q \<Longrightarrow> std (channel ps c) = 0"
  by (rule std_const [OF _ channel_uniform]) (simp_all add: channel_def)

lemma sum_all_values_uniform:
  "\<forall>p \<in> set ps. p = [r, g, b] \<Longrightarrow>
   sum_list (all_values ps) = real (length ps) * (real r + real g + real b)
   \<and> length (all_values ps) = 3 * length ps"
  by (induction ps) (auto simp: all_values_def algebra_simps)

lemma mean_all_values_uniform:
  assumes "ps \<noteq> []" "\<forall>p \<in> set ps. p = [r, g, b]"
  shows "mean (all_values ps) = (real r + real g + real b) / 3"
  using assms sum_all_values_uniform [OF assms(2)] by (simp add: mean_def)

lemma mean3_zero: "mean [0, 0, 0] = 0"
  by (simp add: mean_def)

lemma sampled_pixels_nonempty:
  assumes "valid_sampling env" "wf_image img"
  shows "sampled_pixels env img \<noteq> []"
proof -
  from assms(2) have "0 < length (img_data img)" by (simp add: wf_image_def)
  then have "0 < length (sampled_pixels env img)"
    by (simp add: sampled_pixels_length [OF assms(1)])
  then show ?thesis by auto
qed

subsection \<open>Winning channels\<close>

lemma argmax3:
  "argmax (map (\<lambda>v. real v / 255) [a, b, c])
   = (if b \<le> a \<and> c \<le> a then 0 else if a < b \<and> c \<le> b then 1 else 2)"
  by (auto simp: argmax_def)

lemma wins3:
  "wins 0 [a, b, c] \<longleftrightarrow> b \<le> a \<and> c \<le> a"
  "wins (Suc 0) [a, b, c] \<longleftrightarrow> a < b \<and> c \<le> b"
  "wins 2 [a, b, c] \<longleftrightarrow> a < c \<and> b < c"
  by (auto simp: wins_def upt_rec numeral_2_eq_2 numeral_3_eq_3)

lemma len3: "length p = 3 \<Longrightarrow> \<exists>a b c. p = [a, b, c]"
  by (auto simp: length_Suc_conv numeral_3_eq_3)

lemma argmax_wins:
  assumes "length p = 3" "c < 3"
  shows "argmax (map (\<lambda>v. real v / 255) p) = c \<longleftrightarrow> wins c p"
proof -
  obtain x y z where p: "p = [x, y, z]" using len3 [OF assms(1)] by blast
  from assms(2) have "c = 0 \<or> c = 1 \<or> c = 2" by auto
  then show ?thesis
    unfolding p argmax3 by (elim disjE) (auto simp: wins3)
qed

lemma dominant_win_fraction:
  assumes "list_all (\<lambda>p. length p = 3) ps" "c < 3"
  shows "dominant (max_channel ps) c = win_fraction c ps"
proof -
  have "filter (\<lambda>m. m = c) (max_channel ps)
        = map (\<lambda>p. argmax (map (\<lambda>v. real v / 255) p)) (filter (wins c) ps)"
    using assms(1)
    by (induction ps) (auto simp: max_channel_def argmax_wins [OF _ assms(2)])
  then show ?thesis
    by (simp add: dominant_def win_fraction_def max_channel_def)
qed

lemma hue_of_sample_fractions:
  assumes "list_all (\<lambda>p. length p = 3) ps"
  shows "hue_of_sample ps =
     (if 0.4 < win_fraction 0 ps then ''red''
      else if 0.4 < win_fraction 1 ps then ''green''
      else if 0.4 < win_fraction 2 ps then ''blue'' else ''mixed'')"
  unfolding hue_of_sample_def Let_def
  by (simp add: dominant_win_fraction [OF assms])

lemma sampled_pixels_bands:
  assumes "valid_sampling env" "wf_image img" "img_mode img = ''RGB''"
  shows "list_all (\<lambda>p. length p = 3) (sampled_pixels env img)"
  using sampled_pixels_subset [OF assms(1), of img] assms(2,3)
  by (auto simp: wf_image_def list_all_iff)


lemma evaluated_basic:
  assumes "wf_image (rgb_image wd ht ps)" "length ps \<le> 10000"
  shows "fst (analyze_image_basic (one_file_env path (rgb_image wd ht ps)) path w) =
     basic_result (rgb_image wd ht ps) 2048
      \<lparr>avg_color = Some (map (\<lambda>c. mean (channel ps c)) [0, 1, 2]),
       dominant_color_type = ''color'',
       is_likely_text = (50 < std (map luminance ps) \<and> mean (map luminance ps) < 128),
       is_colorful = (30 < mean (map (\<lambda>c. std (channel ps c)) [0, 1, 2])),
       brightness = Some (mean (all_values ps)),
       is_bright = (180 < mean (all_values ps)),
       is_dark = (mean (all_values ps) < 75),
       dominant_hue = hue_of_sample ps\<rparr>"
proof -
  let ?t = "rgb_image wd ht ps"
  let ?env = "one_file_env path ?t"
  have smp: "sampled_pixels ?env ?t = ps"
    using assms(2) by (simp add: sampled_pixels_one_file img_data_rgb_image)
  have "analyze_colors ?env ?t initial_locals = (None, 
      \<lparr>avg_color = Some (map (\<lambda>c. mean (channel ps c)) [0, 1, 2]),
       dominant_color_type = ''color'',
       is_likely_text = (50 < std (map luminance ps) \<and> mean (map luminance ps) < 128),
       is_colorful = (30 < mean (map (\<lambda>c. std (channel ps c)) [0, 1, 2])),
       brightness = Some (mean (all_values ps)),
       is_bright = (180 < mean (all_values ps)),
       is_dark = (mean (all_values ps) < 75),
       dominant_hue = hue_of_sample ps\<rparr>)"
    using analyze_colors_sampled [OF to_rgb_RGB [OF img_data_rgb_image(2)] assms(1)
        img_data_rgb_image(2) valid_sampling_one_file, of path ?t]
    unfolding smp img_data_rgb_image by simp
  then show ?thesis
    by (simp add: analyze_image_basic_ok [OF one_file_env_sel(1,2)])
qed

subsection \<open>Loading the captioning model\<close>

lemma load_attempts_log_to:
  "load_attempts (log_to level msg w) =
     load_attempts w + (if level = ''info'' \<and> take 22 msg = ''Loading vision model: '' then 1 else 0)"
  by (simp add: load_attempts_def log_to_def)

lemma load_attempts_update [simp]:
  "load_attempts (w\<lparr>vision_processor := p\<rparr>) = load_attempts w"
  "load_attempts (w\<lparr>vision_model := m\<rparr>) = load_attempts w"
  "load_attempts (w\<lparr>vision_model_loaded := b\<rparr>) = load_attempts w"
  by (simp_all add: load_attempts_def)

lemma log_to_fields [simp]:
  "vision_model_loaded (log_to level msg w) = vision_model_loaded w"
  "vision_processor (log_to level msg w) = vision_processor w"
  "vision_model (log_to level msg w) = vision_model w"
  "tesseract_cmd (log_to level msg w) = tesseract_cmd w"
  by (simp_all add: log_to_def)

lemma load_when_loaded:
  "vision_model_loaded w \<Longrightarrow>
   vision_model_loaded (snd (load_vision_model venv model_name w))
   \<and> load_attempts (snd (load_vision_model venv model_name w)) = load_attempts w"
  by (simp add: load_vision_model_def load_attempts_log_to)

lemma load_calls_when_loaded:
  "vision_model_loaded w \<Longrightarrow> load_attempts (load_calls calls w) = load_attempts w"
proof (induction calls arbitrary: w)
  case Nil
  then show ?case by simp
next
  case (Cons c calls)
  obtain venv model_name where c: "c = (venv, model_name)" by (cases c)
  from Cons.prems load_when_loaded [of w venv model_name]
  have "vision_model_loaded (snd (load_vision_model venv model_name w))"
    and "load_attempts (snd (load_vision_model venv model_name w)) = load_attempts w"
    by simp_all
  with Cons.IH [of "snd (load_vision_model venv model_name w)"] show ?case
    by (simp add: c)
qed

lemma load_success_sets_flag:
  "fst (load_vision_model venv model_name w) \<Longrightarrow>
   vision_model_loaded (snd (load_vision_model venv model_name w))"
  by (auto simp: load_vision_model_def load_failed_def Let_def split: if_splits sum.splits)

lemma load_unavailable:
  "\<not> VISION_MODEL_AVAILABLE venv \<Longrightarrow>
   \<not> fst (load_vision_model venv model_name w)
   \<and> load_attempts (snd (load_vision_model venv model_name w)) = load_attempts w"
  by (simp add: load_vision_model_def load_attempts_log_to)

lemma take22_loading: "take 22 (''Loading vision model: '' @ model_name) = ''Loading vision model: ''"
  by simp

lemma take22_failed: "take 22 (''Failed to load vision model: '' @ m) \<noteq> ''Loading vision model: ''"
  by simp

lemma load_attempt_counted:
  "VISION_MODEL_AVAILABLE venv \<Longrightarrow> \<not> vision_model_loaded w \<Longrightarrow>
   load_attempts (snd (load_vision_model venv model_name w)) = load_attempts w + 1"
  by (simp add: load_vision_model_def load_failed_def Let_def load_attempts_log_to
      split: sum.splits)

lemma load_failure_keeps_flag:
  "\<not> fst (load_vision_model venv model_name w) \<Longrightarrow>
   vision_model_loaded (snd (load_vision_model venv model_name w)) = vision_model_loaded w"
  by (auto simp: load_vision_model_def load_failed_def Let_def split: if_splits sum.splits)

subsection \<open>The clauses of the description\<close>











subsection \<open>The shapes of the partial results\<close>













subsection \<open>The description\<close>














lemma analyze_image_basic_fst_world:
  "fst (analyze_image_basic env path w) = fst (analyze_image_basic env path w')"
  by (simp add: analyze_image_basic_def Let_def split: sum.splits prod.splits)











text \<open>
  C2 (defect in the code). The claim: a natively grayscale image is labelled with the hue
  \<open>grayscale\<close>, and an image whose channel count is neither 3 nor 4 with \<open>unknown\<close>.
  \<^verbatim>\<open>analyze_image_basic\<close> converts every non-RGB image to RGB before it inspects the array,
  so the array always has three channels and the branches that assign \<open>grayscale\<close> and
  \<open>unknown\<close> are never taken: the one-channel grayscale image below is labelled \<open>red\<close>,
  with colour type \<open>color\<close>.
\<close>

theorem grayscale_image_labelled_red:
  "dget (fst (analyze_image_basic (one_file_env ''gray.png'' (gray_image 2 2 [28, 228, 28, 228]))
            ''gray.png'' world0)) ''color_mode'' PNone = PStr ''L''
   \<and> dget (fst (analyze_image_basic (one_file_env ''gray.png'' (gray_image 2 2 [28, 228, 28, 228]))
            ''gray.png'' world0)) ''dominant_hue'' PNone = PStr ''red''
   \<and> dget (fst (analyze_image_basic (one_file_env ''gray.png'' (gray_image 2 2 [28, 228, 28, 228]))
            ''gray.png'' world0)) ''dominant_color_type'' PNone = PStr ''color''"
proof -
  let ?g = "gray_image 2 2 [28, 228, 28, 228]"
  let ?env = "one_file_env ''gray.png'' ?g"
  let ?ps = "[[28, 28, 28], [228, 228, 228], [28, 28, 28], [228, 228, 228]]"
  let ?rgb = "rgb_image 2 2 ?ps"
  have rgb: "to_rgb ?env ?g = Inr ?rgb"
    by (simp add: to_rgb_gray)
  have wf: "wf_image ?rgb" by (rule wf_rgb_image) simp_all
  have smp: "sampled_pixels ?env ?rgb = ?ps"
    by (simp add: sampled_pixels_one_file img_data_rgb_image)
  have hue: "hue_of_sample ?ps = ''red''"
    by (simp add: hue_of_sample_def max_channel_def dominant_def argmax_def)
  note ac = analyze_colors_sampled [OF rgb wf img_data_rgb_image(2) valid_sampling_one_file]
  have res: "fst (analyze_image_basic ?env ''gray.png'' world0)
             = basic_result ?g 2048 (snd (analyze_colors ?env ?g initial_locals))"
    by (rule analyze_image_basic_ok [OF one_file_env_sel(1,2)])
  show ?thesis
    unfolding res ac by (simp add: basic_result_lookup smp hue gray_image_sel)
qed



text \<open>
  C4 (amended). The claim: once loading the captioning model has failed, the failure is cached
  and no later call attempts the load again. Only a success is cached. As amended: a call that
  returns true has set the loaded flag, and from then on no call attempts a load; when the
  dependencies are missing, which is found once at import, no call attempts a load; when the
  dependencies are present and a load has failed, the next call attempts the load again.
\<close>

theorem load_caches_success_only:
  "(\<forall>venv model_name w. fst (load_vision_model venv model_name w) \<longrightarrow>
       vision_model_loaded (snd (load_vision_model venv model_name w)))
   \<and> (\<forall>calls w. vision_model_loaded w \<longrightarrow> load_attempts (load_calls calls w) = load_attempts w)
   \<and> (\<forall>venv model_name w. \<not> VISION_MODEL_AVAILABLE venv \<longrightarrow>
         \<not> fst (load_vision_model venv model_name w)
         \<and> load_attempts (snd (load_vision_model venv model_name w)) = load_attempts w)
   \<and> (\<forall>venv model_name w venv' model_name'.
         VISION_MODEL_AVAILABLE venv \<and> \<not> vision_model_loaded w
         \<and> \<not> fst (load_vision_model venv model_name w) \<and> VISION_MODEL_AVAILABLE venv' \<longrightarrow>
         load_attempts (snd (load_vision_model venv' model_name'
                               (snd (load_vision_model venv model_name w))))
         = load_attempts w + 2)"
  using load_success_sets_flag load_calls_when_loaded load_unavailable
    load_attempt_counted load_failure_keeps_flag
  by (intro conjI allI impI) simp_all


theorem load_caches_success_only_witness:
  "fst (load_vision_model working_vision ''blip'' world0)
   \<and> vision_model_loaded (snd (load_vision_model working_vision ''blip'' world0))
   \<and> load_attempts (load_calls [(offline_vision, ''blip''), (working_vision, ''blip'')]
        (snd (load_vision_model working_vision ''blip'' world0)))
      = load_attempts (snd (load_vision_model working_vision ''blip'' world0))
   \<and> \<not> VISION_MODEL_AVAILABLE (offline_vision\<lparr>VISION_MODEL_AVAILABLE := False\<rparr>)
   \<and> load_attempts (snd (load_vision_model (offline_vision\<lparr>VISION_MODEL_AVAILABLE := False\<rparr>)
        ''blip'' world0)) = load_attempts world0
   \<and> VISION_MODEL_AVAILABLE offline_vision \<and> \<not> vision_model_loaded world0
   \<and> \<not> fst (load_vision_model offline_vision ''blip'' world0)
   \<and> VISION_MODEL_AVAILABLE working_vision
   \<and> load_attempts (snd (load_vision_model working_vision ''blip''
                         (snd (load_vision_model offline_vision ''blip'' world0))))
      = load_attempts world0 + 2"
proof -
  have a: "fst (load_vision_model working_vision ''blip'' world0)"
    by (simp add: load_vision_model_def working_vision_def world0_def)
  have b: "\<not> VISION_MODEL_AVAILABLE (offline_vision\<lparr>VISION_MODEL_AVAILABLE := False\<rparr>)"
    by simp
  have c: "VISION_MODEL_AVAILABLE offline_vision \<and> \<not> vision_model_loaded world0
     \<and> \<not> fst (load_vision_model offline_vision ''blip'' world0)
     \<and> VISION_MODEL_AVAILABLE working_vision"
    by (simp add: load_vision_model_def load_failed_def offline_vision_def working_vision_def
        world0_def)
  from load_caches_success_only a b c show ?thesis
    by blast
qed


text \<open>
  The claim as stated fails while the download of the model fails: every one of three calls
  attempts the load.
\<close>

theorem failed_load_is_attempted_again:
  "\<not> fst (load_vision_model offline_vision ''Salesforce/blip-image-captioning-base'' world0)
   \<and> load_attempts (load_calls [(offline_vision, ''Salesforce/blip-image-captioning-base'')] world0) = 1
   \<and> load_attempts (load_calls [(offline_vision, ''Salesforce/blip-image-captioning-base''),
                                 (offline_vision, ''Salesforce/blip-image-captioning-base'')] world0) = 2
   \<and> load_attempts (load_calls [(offline_vision, ''Salesforce/blip-image-captioning-base''),
                                 (offline_vision, ''Salesforce/blip-image-captioning-base''),
                                 (offline_vision, ''Salesforce/blip-image-captioning-base'')] world0) = 3"
  by (simp add: load_vision_model_def load_failed_def offline_vision_def world0_def
      load_attempts_def log_to_def)
text \<open>
  C5 (amended). The claim: for a valid image of one colour, \<open>is_colorful\<close> is false and the
  brightness equals the colour's luminance within rounding tolerance. The brightness is the
  mean of the sampled channel values, not the weighted luminance. As amended: for an image
  whose RGB view has the one colour \<open>(r, g, b)\<close>, \<open>is_colorful\<close> is false and the
  brightness is \<open>(r + g + b) / 3\<close> rounded to one decimal, hence within 0.05 of it.
\<close>

theorem uniform_image_statistics:
  assumes "open_image env path = Inr img" and "stat_size env path = Inr sz"
    and "to_rgb env img = Inr rgb" and "wf_image rgb" and "img_mode rgb = ''RGB''"
    and "valid_sampling env"
    and "\<forall>p \<in> set (img_data rgb). p = [r, g, b]"
  shows "dget (fst (analyze_image_basic env path w)) ''is_colorful'' PNone = PBool False
     \<and> dget (fst (analyze_image_basic env path w)) ''brightness'' PNone
         = PFloat (py_round ((real r + real g + real b) / 3) 1)
     \<and> \<bar>py_round ((real r + real g + real b) / 3) 1 - (real r + real g + real b) / 3\<bar> \<le> 1 / 20"
proof -
  let ?s = "sampled_pixels env rgb"
  have ne: "?s \<noteq> []" by (rule sampled_pixels_nonempty [OF assms(6,4)])
  have un: "\<forall>p \<in> set ?s. p = [r, g, b]"
    using sampled_pixels_subset [OF assms(6), of rgb] assms(7) by blast
  have sd: "std (channel ?s c) = 0" for c
    by (rule std_channel_uniform [OF ne un])
  have br: "mean (all_values ?s) = (real r + real g + real b) / 3"
    by (rule mean_all_values_uniform [OF ne un])
  note ac = analyze_colors_sampled [OF assms(3,4,5,6)]
  have res: "fst (analyze_image_basic env path w)
             = basic_result img sz (snd (analyze_colors env img initial_locals))"
    by (rule analyze_image_basic_ok [OF assms(1,2)])
  have "dget (fst (analyze_image_basic env path w)) ''is_colorful'' PNone = PBool False"
    unfolding res ac by (simp add: basic_result_lookup sd mean3_zero)
  moreover have "dget (fst (analyze_image_basic env path w)) ''brightness'' PNone
         = PFloat (py_round ((real r + real g + real b) / 3) 1)"
    unfolding res ac by (simp add: basic_result_lookup br)
  ultimately show ?thesis
    using py_round_near [of "(real r + real g + real b) / 3"] by blast
qed


theorem uniform_image_statistics_witness:
  "open_image (one_file_env ''flat.png'' (rgb_image 2 2 [[200, 100, 50], [200, 100, 50], [200, 100, 50], [200, 100, 50]])) ''flat.png''
     = Inr (rgb_image 2 2 [[200, 100, 50], [200, 100, 50], [200, 100, 50], [200, 100, 50]])
   \<and> wf_image (rgb_image 2 2 [[200, 100, 50], [200, 100, 50], [200, 100, 50], [200, 100, 50]])
   \<and> valid_sampling (one_file_env ''flat.png'' (rgb_image 2 2 [[200, 100, 50], [200, 100, 50], [200, 100, 50], [200, 100, 50]]))
   \<and> list_all (\<lambda>p. p = [200, 100, 50])
        (img_data (rgb_image 2 2 [[200, 100, 50], [200, 100, 50], [200, 100, 50], [200, 100, 50]]))
   \<and> dget (fst (analyze_image_basic
        (one_file_env ''flat.png'' (rgb_image 2 2 [[200, 100, 50], [200, 100, 50], [200, 100, 50], [200, 100, 50]]))
        ''flat.png'' world0)) ''is_colorful'' PNone = PBool False
   \<and> dget (fst (analyze_image_basic
        (one_file_env ''flat.png'' (rgb_image 2 2 [[200, 100, 50], [200, 100, 50], [200, 100, 50], [200, 100, 50]]))
        ''flat.png'' world0)) ''brightness'' PNone = PFloat 116.7"
proof -
  let ?ps = "[[200, 100, 50], [200, 100, 50], [200, 100, 50], [200, 100, 50]]"
  let ?t = "rgb_image 2 2 ?ps"
  let ?env = "one_file_env ''flat.png'' ?t"
  have wf: "wf_image ?t" by (rule wf_rgb_image) simp_all
  have un: "\<forall>p \<in> set (img_data ?t). p = [200, 100, 50]" by (simp add: img_data_rgb_image)
  have r: "py_round ((real 200 + real 100 + real 50) / 3) 1 = 116.7"
    by (simp add: py_round_def round_half_even_def)
  note th = uniform_image_statistics [OF one_file_env_sel(1,2) [of "''flat.png''" ?t] to_rgb_RGB [OF img_data_rgb_image(2)]
        wf img_data_rgb_image(2) valid_sampling_one_file un, where w = world0]
  show ?thesis
    using th unfolding r
    by (simp add: one_file_env_sel wf valid_sampling_one_file img_data_rgb_image)
qed


text \<open>
  The claim as stated fails on pure red: brightness 85, luminance
  \<open>0.2989 \<times> 255 = 76.2195\<close>.
\<close>

theorem uniform_red_brightness_is_not_luminance:
  "dget (fst (analyze_image_basic
       (one_file_env ''red.png'' (rgb_image 2 2 [[255, 0, 0], [255, 0, 0], [255, 0, 0], [255, 0, 0]]))
       ''red.png'' world0)) ''brightness'' PNone = PFloat 85
   \<and> luminance [255, 0, 0] = 76.2195
   \<and> 8 < \<bar>85 - luminance [255, 0, 0]\<bar>"
proof -
  let ?ps = "[[255, 0, 0], [255, 0, 0], [255, 0, 0], [255, 0, 0]]"
  have wf: "wf_image (rgb_image 2 2 ?ps)" by (rule wf_rgb_image) simp_all
  have b: "mean (all_values ?ps) = 85" by (simp add: mean_def all_values_def)
  have r: "py_round 85 (Suc 0) = 85" by (simp add: py_round_def round_half_even_def)
  have "dget (fst (analyze_image_basic (one_file_env ''red.png'' (rgb_image 2 2 ?ps))
       ''red.png'' world0)) ''brightness'' PNone = PFloat 85"
    by (simp add: evaluated_basic [OF wf] basic_result_lookup b r)
  moreover have "luminance [255, 0, 0] = 76.2195" by (simp add: luminance_def)
  ultimately show ?thesis by simp
qed

text \<open>
  C6 (amended). The claim: an RGB image is labelled with a hue exactly when that channel's
  winning fraction among the sampled pixels exceeds 0.4, and \<open>mixed\<close> otherwise. Two
  fractions can exceed 0.4 at once. As amended: the label is \<open>red\<close> when red's fraction
  exceeds 0.4, otherwise \<open>green\<close> when green's does, otherwise \<open>blue\<close> when blue's does,
  and \<open>mixed\<close> otherwise, a maximum shared by several channels of a pixel counting for the
  first of them.
\<close>

theorem dominant_hue_by_priority:
  assumes "open_image env path = Inr img" and "stat_size env path = Inr sz"
    and "img_mode img = ''RGB''" and "wf_image img" and "valid_sampling env"
  shows "dget (fst (analyze_image_basic env path w)) ''dominant_hue'' PNone =
     PStr (if 0.4 < win_fraction 0 (sampled_pixels env img) then ''red''
           else if 0.4 < win_fraction 1 (sampled_pixels env img) then ''green''
           else if 0.4 < win_fraction 2 (sampled_pixels env img) then ''blue''
           else ''mixed'')"
proof -
  note ac = analyze_colors_sampled [OF to_rgb_RGB [OF assms(3)] assms(4,3,5)]
  have res: "fst (analyze_image_basic env path w)
             = basic_result img sz (snd (analyze_colors env img initial_locals))"
    by (rule analyze_image_basic_ok [OF assms(1,2)])
  show ?thesis
    unfolding res ac
    by (simp add: basic_result_lookup hue_of_sample_fractions [OF sampled_pixels_bands [OF assms(5,4,3)]])
qed


theorem dominant_hue_by_priority_witness:
  "wf_image (rgb_image 2 2 [[0, 255, 0], [10, 200, 10], [0, 90, 30], [255, 0, 0]])
   \<and> valid_sampling (one_file_env ''leaf.png'' (rgb_image 2 2 [[0, 255, 0], [10, 200, 10], [0, 90, 30], [255, 0, 0]]))
   \<and> win_fraction 0 (sampled_pixels
       (one_file_env ''leaf.png'' (rgb_image 2 2 [[0, 255, 0], [10, 200, 10], [0, 90, 30], [255, 0, 0]]))
       (rgb_image 2 2 [[0, 255, 0], [10, 200, 10], [0, 90, 30], [255, 0, 0]])) = 1 / 4
   \<and> win_fraction 1 (sampled_pixels
       (one_file_env ''leaf.png'' (rgb_image 2 2 [[0, 255, 0], [10, 200, 10], [0, 90, 30], [255, 0, 0]]))
       (rgb_image 2 2 [[0, 255, 0], [10, 200, 10], [0, 90, 30], [255, 0, 0]])) = 3 / 4
   \<and> dget (fst (analyze_image_basic
       (one_file_env ''leaf.png'' (rgb_image 2 2 [[0, 255, 0], [10, 200, 10], [0, 90, 30], [255, 0, 0]]))
       ''leaf.png'' world0)) ''dominant_hue'' PNone = PStr ''green''"
proof -
  let ?ps = "[[0, 255, 0], [10, 200, 10], [0, 90, 30], [255, 0, 0]]"
  let ?t = "rgb_image 2 2 ?ps"
  let ?env = "one_file_env ''leaf.png'' ?t"
  have wf: "wf_image ?t" by (rule wf_rgb_image) simp_all
  have smp: "sampled_pixels ?env ?t = ?ps"
    by (simp add: sampled_pixels_one_file img_data_rgb_image)
  have f0: "win_fraction 0 ?ps = 1 / 4" by (simp add: win_fraction_def wins3)
  have f1: "win_fraction 1 ?ps = 3 / 4" by (simp add: win_fraction_def wins3)
  show ?thesis
    using dominant_hue_by_priority [OF one_file_env_sel(1,2) [of "''leaf.png''" ?t] img_data_rgb_image(2) wf
        valid_sampling_one_file, where w = world0]
    unfolding smp f0 f1
    by (simp add: wf valid_sampling_one_file)
qed


text \<open>
  The claim as stated fails on an image half red, half green: green wins half of the pixels,
  and the label is \<open>red\<close>.
\<close>

theorem two_hues_above_threshold:
  "0.4 < win_fraction 1 (sampled_pixels
       (one_file_env ''rg.png'' (rgb_image 2 2 [[255, 0, 0], [0, 255, 0], [255, 0, 0], [0, 255, 0]]))
       (rgb_image 2 2 [[255, 0, 0], [0, 255, 0], [255, 0, 0], [0, 255, 0]]))
   \<and> dget (fst (analyze_image_basic
       (one_file_env ''rg.png'' (rgb_image 2 2 [[255, 0, 0], [0, 255, 0], [255, 0, 0], [0, 255, 0]]))
       ''rg.png'' world0)) ''dominant_hue'' PNone = PStr ''red''"
proof -
  let ?ps = "[[255, 0, 0], [0, 255, 0], [255, 0, 0], [0, 255, 0]]"
  have wf: "wf_image (rgb_image 2 2 ?ps)" by (rule wf_rgb_image) simp_all
  have h: "hue_of_sample ?ps = ''red''"
    by (simp add: hue_of_sample_def max_channel_def dominant_def argmax_def)
  have f: "0.4 < win_fraction 1 ?ps"
    by (simp add: win_fraction_def wins3)
  have "dget (fst (analyze_image_basic (one_file_env ''rg.png'' (rgb_image 2 2 ?ps))
       ''rg.png'' world0)) ''dominant_hue'' PNone = PStr ''red''"
    by (simp add: evaluated_basic [OF wf] basic_result_lookup h)
  with f show ?thesis
    by (simp add: sampled_pixels_one_file img_data_rgb_image)
qed

text \<open>
  C7 (defect in the code). The claim: the text flag holds iff the standard deviation of the
  gray values exceeds 50 and their mean is below 128, a natively grayscale image using its
  channel directly. The grayscale branch of the estimate is never taken (the array is always
  RGB), so the gray values of a grayscale image are its values times the weights' sum 0.9999:
  the image below has native standard deviation 100 and native mean exactly 128, which is not
  below 128, and yet is flagged as text.
\<close>

theorem grayscale_text_estimate_uses_weights:
  "std (all_values (img_data (gray_image 2 2 [28, 228, 28, 228]))) = 100
   \<and> mean (all_values (img_data (gray_image 2 2 [28, 228, 28, 228]))) = 128
   \<and> dget (fst (analyze_image_basic (one_file_env ''scan.png'' (gray_image 2 2 [28, 228, 28, 228]))
            ''scan.png'' world0)) ''is_likely_text'' PNone = PBool True"
proof -
  let ?g = "gray_image 2 2 [28, 228, 28, 228]"
  let ?env = "one_file_env ''scan.png'' ?g"
  let ?ps = "[[28, 28, 28], [228, 228, 228], [28, 28, 28], [228, 228, 228]]"
  let ?rgb = "rgb_image 2 2 ?ps"
  have m: "mean (all_values (img_data ?g)) = 128"
    by (simp add: gray_image_sel all_values_def mean_def)
  have v: "variance (all_values (img_data ?g)) = 100\<^sup>2"
    by (simp add: variance_def m) (simp add: gray_image_sel all_values_def mean_def)
  have s: "std (all_values (img_data ?g)) = 100"
    unfolding std_def v by simp
  have rgb: "to_rgb ?env ?g = Inr ?rgb"
    by (simp add: to_rgb_gray)
  have wf: "wf_image ?rgb" by (rule wf_rgb_image) simp_all
  have lm: "mean (map luminance ?ps) < 128"
    by (simp add: mean_def luminance_def)
  have ls: "50 < std (map luminance ?ps)"
    by (simp add: std_gt_iff variance_def mean_def luminance_def power2_eq_square)
  note ac = analyze_colors_sampled [OF rgb wf img_data_rgb_image(2) valid_sampling_one_file]
  have res: "fst (analyze_image_basic ?env ''scan.png'' world0)
             = basic_result ?g 2048 (snd (analyze_colors ?env ?g initial_locals))"
    by (rule analyze_image_basic_ok [OF one_file_env_sel(1,2)])
  have "dget (fst (analyze_image_basic ?env ''scan.png'' world0)) ''is_likely_text'' PNone = PBool True"
    unfolding res ac using lm ls by (simp add: basic_result_lookup img_data_rgb_image)
  with m s show ?thesis by simp
qed




text \<open>
  C10. For a document with at least one page and any \<^verbatim>\<open>page_range\<close> (absent, or a dictionary
  with arbitrary integer \<^verbatim>\<open>start\<close> and/or \<^verbatim>\<open>end\<close>), the returned pair of 0-based indices
  satisfies \<open>0 \<le> start \<le> end \<le> total_pages - 1\<close>.
\<close>

theorem get_page_range_within_bounds:
  assumes "1 \<le> total_pages"
  shows "0 \<le> fst (get_page_range total_pages page_range)
       \<and> fst (get_page_range total_pages page_range) \<le> snd (get_page_range total_pages page_range)
       \<and> snd (get_page_range total_pages page_range) \<le> total_pages - 1"
  using assms
  by (auto simp: get_page_range_def Let_def split: option.splits)

theorem get_page_range_within_bounds_witness:
  "(1::int) \<le> 5
   \<and> get_page_range 5 (Some [''start'' \<mapsto> -3, ''end'' \<mapsto> 99]) = (0, 4)
   \<and> get_page_range 5 (Some [''start'' \<mapsto> 7]) = (4, 4)
   \<and> 0 \<le> fst (get_page_range 5 (Some [''start'' \<mapsto> 4, ''end'' \<mapsto> 2]))
   \<and> fst (get_page_range 5 (Some [''start'' \<mapsto> 4, ''end'' \<mapsto> 2]))
        \<le> snd (get_page_range 5 (Some [''start'' \<mapsto> 4, ''end'' \<mapsto> 2]))
   \<and> snd (get_page_range 5 (Some [''start'' \<mapsto> 4, ''end'' \<mapsto> 2])) \<le> 5 - 1"
  using get_page_range_within_bounds [of 5 "Some [''start'' \<mapsto> 4, ''end'' \<mapsto> 2]"]
  by (simp add: get_page_range_def)

end
